theory Spec2Isabelle
  imports Main "HOL-Library.AList"
begin

section \<open>Data model of package httpx\<close>

text \<open>
  A Go \<^verbatim>\<open>map[string]string\<close> is represented by the list of its entries, in the order in
  which a \<^verbatim>\<open>range\<close> statement visits them; the keys of a map are pairwise distinct
  (\<open>map_ok\<close>). Go leaves the visiting order open, so a statement about every such list is a
  statement about every order. The nil map is \<open>None\<close>: ranging over it visits nothing,
  assigning to one of its entries panics.
\<close>

type_synonym gomap = "(string \<times> string) list option"

definition range_map :: "gomap \<Rightarrow> (string \<times> string) list" where
  "range_map m = (case m of None \<Rightarrow> [] | Some es \<Rightarrow> es)"

definition map_ok :: "gomap \<Rightarrow> bool" where
  "map_ok m = distinct (map fst (range_map m))"

text \<open>The run-time panics that the code of the package itself can raise.\<close>

datatype panic = NilPointerDereference | NilMapAssignment

text \<open>
  An \<^verbatim>\<open>error\<close> value that is not a \<^verbatim>\<open>*Response\<close>; the package only ever asks it for its
  message (\<^verbatim>\<open>err.Error()\<close>).
\<close>

datatype goerror = GoError string

fun error_msg :: "goerror \<Rightarrow> string" where
  "error_msg (GoError s) = s"

text \<open>
  Values of type \<^verbatim>\<open>any\<close> handed to the JSON encoder. \<open>AnyNil\<close> is the nil interface
  value. \<open>AnyTypedNil\<close> is a nil pointer, slice or map held in an interface: it is not equal
  to the nil interface value, and \<^verbatim>\<open>encoding/json\<close> writes it as \<^verbatim>\<open>null\<close>. A
  \<^verbatim>\<open>map[string]any\<close> is a list of entries like every other map.
\<close>

datatype any = AnyNil | AnyTypedNil | AnyString string | AnyInt int | AnyBool bool
  | AnyMap "(string \<times> any) list"

text \<open>
  Readers: the one made by \<^verbatim>\<open>strings.NewReader(s)\<close>, and the readers and read-closers
  that callers pass in, known by a handle.
\<close>

datatype reader = StringsReader string | ExternalReader nat

text \<open>
  The two writers a body action is ever called with: the \<^verbatim>\<open>http.ResponseWriter\<close> of the
  request and the \<^verbatim>\<open>bytes.Buffer\<close> of \<^verbatim>\<open>Response.Error\<close>.
\<close>

datatype writer = ResponseWriter | BytesBuffer

text \<open>
  The field \<^verbatim>\<open>Copy func(io.Writer) error\<close> holds one of the four closures that the builder
  methods create, each with the value it captures, or nil.
\<close>

datatype copy_fn =
    JSON_Copy any
  | Text_Copy string
  | Reader_Copy reader
  | ReadCloser_Copy reader

record Response =
  r_Code :: int
  r_headers :: gomap
  r_Copy :: "copy_fn option"

datatype request = Request string

text \<open>
  What a call does to the outside world is a list of events, oldest first: the calls on
  the response writer, the body bytes written, the closing of a reader, and the calls of
  the two process-wide hooks \<^verbatim>\<open>CopyErrorHandler\<close> and \<^verbatim>\<open>DefaultAfterMiddleware\<close>.
\<close>

datatype event =
    Header_Set string string
  | WriteHeader int
  | Copy_Call writer copy_fn
  | Write writer string
  | Close reader
  | CopyErrorHandler goerror
  | DefaultAfterMiddleware request Response

text \<open>
  The parts of the world that the package calls and does not define: the process-wide
  variable \<^verbatim>\<open>DefaultErrorHandler\<close> (which may return a nil pointer), what
  \<^verbatim>\<open>json.NewEncoder(w).Encode(value)\<close> writes and returns, what \<^verbatim>\<open>io.Copy(w, reader)\<close>
  writes and returns, and the key under which \<^verbatim>\<open>http.Header.Set(key, value)\<close> stores a value
  (\<^verbatim>\<open>textproto.CanonicalMIMEHeaderKey(key)\<close>).
\<close>

record env =
  DefaultErrorHandler :: "goerror \<Rightarrow> Response option"
  Encode :: "writer \<Rightarrow> any \<Rightarrow> string \<times> goerror option"
  io_Copy :: "writer \<Rightarrow> reader \<Rightarrow> string \<times> goerror option"
  CanonicalMIMEHeaderKey :: "string \<Rightarrow> string"

text \<open>
  A value of the interface type \<^verbatim>\<open>error\<close> as a handler returns it: nil, a \<^verbatim>\<open>*Response\<close>
  (a pointer, which may itself be nil), or any other error.
\<close>

datatype error_value =
    Nil_error
  | Response_error "Response option"
  | Other_error goerror

definition StatusOK :: int where "StatusOK = 200"
definition StatusBadRequest :: int where "StatusBadRequest = 400"

section \<open>The Response builder\<close>

definition Code :: "int \<Rightarrow> Response" where
  "Code code = \<lparr>r_Code = code, r_headers = Some [], r_Copy = None\<rparr>"

definition JSON :: "Response \<Rightarrow> any \<Rightarrow> panic + Response" where
  "JSON r v =
     (case r_headers r of
        None \<Rightarrow> Inl NilMapAssignment
      | Some es \<Rightarrow>
          Inr (r\<lparr>r_headers := Some (AList.update ''Content-Type'' ''application/json'' es),
                 r_Copy := Some (JSON_Copy v)\<rparr>))"

definition NoContent :: Response where
  "NoContent = Code StatusOK"

definition Text :: "Response \<Rightarrow> string \<Rightarrow> Response" where
  "Text r s = r\<lparr>r_Copy := Some (Text_Copy s)\<rparr>"

definition Headers :: "Response \<Rightarrow> gomap \<Rightarrow> Response" where
  "Headers r m =
     (case r_headers r of
        Some es \<Rightarrow> r\<lparr>r_headers := Some (fold (\<lambda>(k, v). AList.update k v) (range_map m) es)\<rparr>
      | None \<Rightarrow> r\<lparr>r_headers := m\<rparr>)"

definition Reader :: "Response \<Rightarrow> reader \<Rightarrow> Response" where
  "Reader r rd = r\<lparr>r_Copy := Some (Reader_Copy rd)\<rparr>"

definition ReadCloser :: "Response \<Rightarrow> reader \<Rightarrow> Response" where
  "ReadCloser r rd = r\<lparr>r_Copy := Some (ReadCloser_Copy rd)\<rparr>"

text \<open>
  Calling a body action \<open>c\<close> with the writer \<open>w\<close>: the events of the call and the error it
  returns. The deferred \<^verbatim>\<open>reader.Close()\<close> of the closure made by \<^verbatim>\<open>ReadCloser\<close> runs when
  \<^verbatim>\<open>io.Copy\<close> has returned, whatever it returned.
\<close>

fun call_Copy :: "env \<Rightarrow> writer \<Rightarrow> copy_fn \<Rightarrow> event list \<times> goerror option" where
  "call_Copy e w (JSON_Copy v) =
     (case Encode e w v of (bs, err) \<Rightarrow> ([Copy_Call w (JSON_Copy v), Write w bs], err))"
| "call_Copy e w (Text_Copy s) =
     (case io_Copy e w (StringsReader s) of
        (bs, err) \<Rightarrow> ([Copy_Call w (Text_Copy s), Write w bs], err))"
| "call_Copy e w (Reader_Copy rd) =
     (case io_Copy e w rd of (bs, err) \<Rightarrow> ([Copy_Call w (Reader_Copy rd), Write w bs], err))"
| "call_Copy e w (ReadCloser_Copy rd) =
     (case io_Copy e w rd of
        (bs, err) \<Rightarrow> ([Copy_Call w (ReadCloser_Copy rd), Write w bs, Close rd], err))"

fun written_to :: "writer \<Rightarrow> event \<Rightarrow> string" where
  "written_to w (Write w' bs) = (if w' = w then bs else [])"
| "written_to w _ = []"

text \<open>
  \<^verbatim>\<open>Response.Error\<close>: the text of the body, read through the body action into a buffer.
  With no body action the call \<^verbatim>\<open>r.Copy(b)\<close> is a call of a nil function value.
\<close>

definition Error :: "env \<Rightarrow> Response \<Rightarrow> panic + string \<times> event list" where
  "Error e r =
     (case r_Copy r of
        None \<Rightarrow> Inl NilPointerDereference
      | Some c \<Rightarrow>
          (case call_Copy e BytesBuffer c of
             (evs, Some err) \<Rightarrow> Inr (''reading all bytes from Reader: '' @ error_msg err, evs)
           | (evs, None) \<Rightarrow> Inr (concat (map (written_to BytesBuffer) evs), evs)))"

text \<open>The value that the package gives \<^verbatim>\<open>DefaultErrorHandler\<close> at start.\<close>

definition DefaultErrorHandler_init :: "goerror \<Rightarrow> Response option" where
  "DefaultErrorHandler_init err = Some (Text (Code StatusBadRequest) (error_msg err))"

section \<open>The resolver\<close>

text \<open>
  \<^verbatim>\<open>fireAfterMiddleware(err, w, r)\<close>: the events on \<open>w\<close> and the hooks, and the panic if the
  call ends in one. \<open>write_Response\<close> is the part of the function after \<open>res\<close> has been
  found (the header loop, the status line, the body action and the two hooks). The only
  panic of its own is the read of \<^verbatim>\<open>res.headers\<close> through a nil pointer, before anything
  is written.
\<close>

definition write_Response :: "env \<Rightarrow> Response option \<Rightarrow> request \<Rightarrow> event list \<times> panic option" where
  "write_Response e p rq =
     (case p of
        None \<Rightarrow> ([], Some NilPointerDereference)
      | Some res \<Rightarrow>
          (map (\<lambda>(key, value). Header_Set key value) (range_map (r_headers res))
           @ [WriteHeader (r_Code res)]
           @ (case r_Copy res of
                None \<Rightarrow> []
              | Some c \<Rightarrow>
                  (case call_Copy e ResponseWriter c of
                     (evs, cerr) \<Rightarrow>
                       evs
                       @ (case cerr of None \<Rightarrow> [] | Some x \<Rightarrow> [CopyErrorHandler x])
                       @ [DefaultAfterMiddleware rq res])),
           None))"

definition fireAfterMiddleware :: "env \<Rightarrow> error_value \<Rightarrow> request \<Rightarrow> event list \<times> panic option" where
  "fireAfterMiddleware e err rq =
     (case err of
        Nil_error \<Rightarrow> ([], None)
      | Response_error res \<Rightarrow> write_Response e res rq
      | Other_error x \<Rightarrow> write_Response e (DefaultErrorHandler e x) rq)"

text \<open>
  A handler runs with the writer and the request; what it did to the writer itself is the
  first component of its result, the error it returns the second.
\<close>

type_synonym Handler = "request \<Rightarrow> event list \<times> error_value"
type_synonym Params = "(string \<times> string) list"
type_synonym HttpRouterHandler = "request \<Rightarrow> Params \<Rightarrow> event list \<times> error_value"

definition H :: "env \<Rightarrow> Handler \<Rightarrow> request \<Rightarrow> event list \<times> panic option" where
  "H e h rq =
     (case h rq of (evs, err) \<Rightarrow>
        (case fireAfterMiddleware e err rq of (t, p) \<Rightarrow> (evs @ t, p)))"

definition HRouter :: "env \<Rightarrow> HttpRouterHandler \<Rightarrow> request \<Rightarrow> Params \<Rightarrow> event list \<times> panic option" where
  "HRouter e h rq ps =
     (case h rq ps of (evs, err) \<Rightarrow>
        (case fireAfterMiddleware e err rq of (t, p) \<Rightarrow> (evs @ t, p)))"

section \<open>Structured error codes\<close>

record ErrorJSONCode =
  e_Code :: string
  e_Status :: int
  e_Extra :: any

definition NewCode :: "string \<Rightarrow> int \<Rightarrow> ErrorJSONCode" where
  "NewCode code status = \<lparr>e_Code = code, e_Status = status, e_Extra = AnyNil\<rparr>"

definition ErrorJSONCode_JSON :: "ErrorJSONCode \<Rightarrow> any list \<Rightarrow> panic + Response" where
  "ErrorJSONCode_JSON e extra =
     (let value = (case extra of [] \<Rightarrow> AnyNil | x # _ \<Rightarrow> x);
          json = [(''code'', AnyString (e_Code e))];
          json' = (if value \<noteq> AnyNil then AList.update ''extra'' value json else json)
      in JSON (Code (e_Status e)) (AnyMap json'))"

section \<open>Observations on traces\<close>

text \<open>The calls of each kind in a trace, in the order in which they were made.\<close>

fun header_sets :: "event list \<Rightarrow> (string \<times> string) list" where
  "header_sets [] = []"
| "header_sets (Header_Set k v # t) = (k, v) # header_sets t"
| "header_sets (_ # t) = header_sets t"

fun status_lines :: "event list \<Rightarrow> int list" where
  "status_lines [] = []"
| "status_lines (WriteHeader c # t) = c # status_lines t"
| "status_lines (_ # t) = status_lines t"

fun copy_calls :: "event list \<Rightarrow> copy_fn list" where
  "copy_calls [] = []"
| "copy_calls (Copy_Call w c # t) = c # copy_calls t"
| "copy_calls (_ # t) = copy_calls t"

fun body_writes :: "event list \<Rightarrow> string list" where
  "body_writes [] = []"
| "body_writes (Write w bs # t) = bs # body_writes t"
| "body_writes (_ # t) = body_writes t"

fun closes :: "event list \<Rightarrow> reader list" where
  "closes [] = []"
| "closes (Close rd # t) = rd # closes t"
| "closes (_ # t) = closes t"

fun copy_errors :: "event list \<Rightarrow> goerror list" where
  "copy_errors [] = []"
| "copy_errors (CopyErrorHandler x # t) = x # copy_errors t"
| "copy_errors (_ # t) = copy_errors t"

fun after_hooks :: "event list \<Rightarrow> (request \<times> Response) list" where
  "after_hooks [] = []"
| "after_hooks (DefaultAfterMiddleware rq res # t) = (rq, res) # after_hooks t"
| "after_hooks (_ # t) = after_hooks t"

section \<open>The response that a trace produces\<close>

text \<open>
  The \<^verbatim>\<open>http.ResponseWriter\<close> belongs to \<^verbatim>\<open>net/http\<close>, not to the package. Its documented
  behaviour, as far as a trace of the package can show it: \<^verbatim>\<open>Header().Set\<close> stores the value
  under the canonical form of the key, replacing what was there; the first
  \<^verbatim>\<open>WriteHeader\<close> sends the status line together with the header map as it is then, and a
  later one is ignored; a \<^verbatim>\<open>Write\<close> before any \<^verbatim>\<open>WriteHeader\<close> sends status 200 first;
  setting a header after the status line has been sent no longer changes the response.
\<close>

record sink =
  sink_Header :: "string \<rightharpoonup> string"
  sink_status :: "int option"
  sink_sent :: "string \<rightharpoonup> string"
  sink_body :: string

definition new_sink :: sink where
  "new_sink = \<lparr>sink_Header = Map.empty, sink_status = None, sink_sent = Map.empty, sink_body = []\<rparr>"

definition send_status :: "int \<Rightarrow> sink \<Rightarrow> sink" where
  "send_status c s =
     (case sink_status s of
        None \<Rightarrow> s\<lparr>sink_status := Some c, sink_sent := sink_Header s\<rparr>
      | Some _ \<Rightarrow> s)"

fun sink_step :: "env \<Rightarrow> event \<Rightarrow> sink \<Rightarrow> sink" where
  "sink_step e (Header_Set k v) s =
     s\<lparr>sink_Header := (sink_Header s)(CanonicalMIMEHeaderKey e k \<mapsto> v)\<rparr>"
| "sink_step e (WriteHeader c) s = send_status c s"
| "sink_step e (Write ResponseWriter bs) s =
     (let s' = send_status StatusOK s in s'\<lparr>sink_body := sink_body s' @ bs\<rparr>)"
| "sink_step e _ s = s"

definition replay :: "env \<Rightarrow> event list \<Rightarrow> sink \<Rightarrow> sink" where
  "replay e t s = fold (sink_step e) t s"

definition response_of :: "env \<Rightarrow> event list \<Rightarrow> sink" where
  "response_of e t = replay e t new_sink"

section \<open>The specification's account of resolving a Result\<close>

text \<open>
  Following the spec's words (4.1): the body that a body action streams to the output
  sink: the JSON serialisation of the value, the raw bytes of the text, all bytes of the
  reader.
\<close>

fun spec_body :: "env \<Rightarrow> copy_fn \<Rightarrow> string" where
  "spec_body e (JSON_Copy v) = fst (Encode e ResponseWriter v)"
| "spec_body e (Text_Copy s) = fst (io_Copy e ResponseWriter (StringsReader s))"
| "spec_body e (Reader_Copy rd) = fst (io_Copy e ResponseWriter rd)"
| "spec_body e (ReadCloser_Copy rd) = fst (io_Copy e ResponseWriter rd)"

text \<open>
  Following the spec's words (4.2, steps 5 to 7): resolving a Result on an output sink
  applies the headers of the Result to the sink (set, not append, the last value for a
  key wins), then writes the status line with the status of the Result, then, if the
  Result has a body action, lets it write the body.
\<close>

definition spec_resolve :: "env \<Rightarrow> Response \<Rightarrow> sink \<Rightarrow> sink" where
  "spec_resolve e R s =
     (let s1 = s\<lparr>sink_Header :=
                   fold (\<lambda>(k, v) m. m(CanonicalMIMEHeaderKey e k \<mapsto> v))
                     (range_map (r_headers R)) (sink_Header s)\<rparr>;
          s2 = send_status (r_Code R) s1
      in case r_Copy R of
           None \<Rightarrow> s2
         | Some c \<Rightarrow> s2\<lparr>sink_body := sink_body s2 @ spec_body e c\<rparr>)"

text \<open>
  Following the spec's words (4.3, "a non-empty extra payload"): the payloads that are
  empty: no value, a nil of some type, the empty string, the empty object.
\<close>

fun empty_payload :: "any \<Rightarrow> bool" where
  "empty_payload AnyNil = True"
| "empty_payload AnyTypedNil = True"
| "empty_payload (AnyString s) = (s = [])"
| "empty_payload (AnyMap es) = (es = [])"
| "empty_payload _ = False"

text \<open>The value under the key \<^verbatim>\<open>"extra"\<close> in the JSON object that a Response has as body.\<close>

definition extra_of :: "panic + Response \<Rightarrow> any option" where
  "extra_of x =
     (case x of
        Inr r \<Rightarrow> (case r_Copy r of Some (JSON_Copy (AnyMap es)) \<Rightarrow> map_of es ''extra'' | _ \<Rightarrow> None)
      | Inl _ \<Rightarrow> None)"

section \<open>Concrete environments\<close>

text \<open>
  The canonical form of a header key in \<^verbatim>\<open>net/textproto\<close>: a key made of token bytes only
  gets an upper-case letter at the start and after each hyphen and lower-case letters
  elsewhere; any other key is left as it is.
\<close>

definition validHeaderFieldByte :: "char \<Rightarrow> bool" where
  "validHeaderFieldByte c =
     (let n = (of_char c :: nat) in
        n = 33 \<or> (35 \<le> n \<and> n \<le> 39) \<or> n = 42 \<or> n = 43 \<or> n = 45 \<or> n = 46
        \<or> (48 \<le> n \<and> n \<le> 57) \<or> (65 \<le> n \<and> n \<le> 90)
        \<or> (94 \<le> n \<and> n \<le> 122) \<or> n = 124 \<or> n = 126)"

fun canonical_bytes :: "bool \<Rightarrow> string \<Rightarrow> string" where
  "canonical_bytes upper [] = []"
| "canonical_bytes upper (c # cs) =
     (let n = (of_char c :: nat);
          c' = (if upper \<and> 97 \<le> n \<and> n \<le> 122 then char_of (n - 32)
                else if \<not> upper \<and> 65 \<le> n \<and> n \<le> 90 then char_of (n + 32)
                else c)
      in c' # canonical_bytes (c' = CHR ''-'') cs)"

definition textproto_CanonicalMIMEHeaderKey :: "string \<Rightarrow> string" where
  "textproto_CanonicalMIMEHeaderKey s =
     (if list_all validHeaderFieldByte s then canonical_bytes True s else s)"

text \<open>
  An environment for running the model on concrete inputs: the classifier is the one the
  package starts with, copying from a string reader succeeds, copying from any other
  reader fails with a broken pipe before a byte is written.
\<close>

definition test_env :: env where
  "test_env = \<lparr>DefaultErrorHandler = DefaultErrorHandler_init,
     Encode = (\<lambda>w v. (''{}'', None)),
     io_Copy = (\<lambda>w rd. case rd of StringsReader s \<Rightarrow> (s, None)
                         | ExternalReader n \<Rightarrow> ([], Some (GoError ''broken pipe''))),
     CanonicalMIMEHeaderKey = textproto_CanonicalMIMEHeaderKey\<rparr>"

text \<open>A handler that does \<open>evs\<close> to the writer and returns \<open>err\<close>.\<close>

definition test_handler :: "event list \<Rightarrow> error_value \<Rightarrow> Handler" where
  "test_handler evs err rq = (evs, err)"

section \<open>Auxiliary facts\<close>

lemma header_sets_append: "header_sets (a @ b) = header_sets a @ header_sets b"
  by (induction a rule: header_sets.induct) simp_all

lemma status_lines_append: "status_lines (a @ b) = status_lines a @ status_lines b"
  by (induction a rule: status_lines.induct) simp_all

lemma copy_calls_append: "copy_calls (a @ b) = copy_calls a @ copy_calls b"
  by (induction a rule: copy_calls.induct) simp_all

lemma body_writes_append: "body_writes (a @ b) = body_writes a @ body_writes b"
  by (induction a rule: body_writes.induct) simp_all

lemma after_hooks_append: "after_hooks (a @ b) = after_hooks a @ after_hooks b"
  by (induction a rule: after_hooks.induct) simp_all

lemma closes_append: "closes (a @ b) = closes a @ closes b"
  by (induction a rule: closes.induct) simp_all

lemmas obs_append = header_sets_append status_lines_append copy_calls_append
  body_writes_append after_hooks_append closes_append

lemma header_sets_loop: "header_sets (map (\<lambda>(key, value). Header_Set key value) es) = es"
  by (induction es) auto

lemma status_lines_loop: "status_lines (map (\<lambda>(key, value). Header_Set key value) es) = []"
  by (induction es) auto

lemma copy_calls_loop: "copy_calls (map (\<lambda>(key, value). Header_Set key value) es) = []"
  by (induction es) auto

lemma body_writes_loop: "body_writes (map (\<lambda>(key, value). Header_Set key value) es) = []"
  by (induction es) auto

lemma after_hooks_loop: "after_hooks (map (\<lambda>(key, value). Header_Set key value) es) = []"
  by (induction es) auto

lemma call_Copy_obs:
  "header_sets (fst (call_Copy e w c)) = []"
  "status_lines (fst (call_Copy e w c)) = []"
  "copy_calls (fst (call_Copy e w c)) = [c]"
  "after_hooks (fst (call_Copy e w c)) = []"
  "length (body_writes (fst (call_Copy e w c))) = 1"
  by (cases c; simp split: prod.splits)+


lemma map_of_rev_distinct: "distinct (map fst es) \<Longrightarrow> map_of (rev es) = map_of es"
proof (induction es)
  case Nil
  then show ?case by simp
next
  case (Cons p es)
  obtain k v where p: "p = (k, v)" by (cases p)
  from Cons.prems p have k: "k \<notin> fst ` set es" and d: "distinct (map fst es)" by auto
  from k have "map_of es k = None" by (simp add: map_of_eq_None_iff)
  with Cons.IH [OF d] p show ?case
    by (auto simp: map_add_def fun_eq_iff split: option.splits)
qed

lemma fold_update_map_of:
  "map_of (fold (\<lambda>(k, v). AList.update k v) ms es) = map_of es ++ map_of (rev ms)"
  by (induction ms arbitrary: es) (auto simp: update_conv' map_add_def fun_eq_iff split: option.splits)

lemma fold_update_distinct:
  "distinct (map fst es) \<Longrightarrow> distinct (map fst (fold (\<lambda>(k, v). AList.update k v) ms es))"
  by (induction ms arbitrary: es) (auto simp: distinct_update)

lemma closes_loop: "closes (map (\<lambda>(key, value). Header_Set key value) es) = []"
  by (induction es) auto

lemma write_Response_Some:
  "write_Response e (Some res) rq =
     (map (\<lambda>(key, value). Header_Set key value) (range_map (r_headers res))
      @ [WriteHeader (r_Code res)]
      @ (case r_Copy res of
           None \<Rightarrow> []
         | Some c \<Rightarrow>
             fst (call_Copy e ResponseWriter c)
             @ (case snd (call_Copy e ResponseWriter c) of None \<Rightarrow> [] | Some x \<Rightarrow> [CopyErrorHandler x])
             @ [DefaultAfterMiddleware rq res]),
      None)"
  by (simp add: write_Response_def split: option.splits prod.splits)

lemma write_Response_None: "write_Response e None rq = ([], Some NilPointerDereference)"
  by (simp add: write_Response_def)

lemma write_Response_counts:
  "length (status_lines (fst (write_Response e p rq))) \<le> 1"
  "length (copy_calls (fst (write_Response e p rq))) \<le> 1"
  "length (body_writes (fst (write_Response e p rq))) \<le> 1"
  "length (after_hooks (fst (write_Response e p rq))) \<le> 1"
proof -
  show "length (status_lines (fst (write_Response e p rq))) \<le> 1"
    by (cases p)
       (auto simp: write_Response_None write_Response_Some obs_append status_lines_loop
          call_Copy_obs split: option.splits)
  show "length (copy_calls (fst (write_Response e p rq))) \<le> 1"
    by (cases p)
       (auto simp: write_Response_None write_Response_Some obs_append copy_calls_loop
          call_Copy_obs split: option.splits)
  show "length (body_writes (fst (write_Response e p rq))) \<le> 1"
    by (cases p)
       (auto simp: write_Response_None write_Response_Some obs_append body_writes_loop
          call_Copy_obs split: option.splits)
  show "length (after_hooks (fst (write_Response e p rq))) \<le> 1"
    by (cases p)
       (auto simp: write_Response_None write_Response_Some obs_append after_hooks_loop
          call_Copy_obs split: option.splits)
qed

lemma H_fireAfterMiddleware:
  "H e h rq = (fst (h rq) @ fst (fireAfterMiddleware e (snd (h rq)) rq),
               snd (fireAfterMiddleware e (snd (h rq)) rq))"
  by (simp add: H_def split: prod.splits)

lemma HRouter_fireAfterMiddleware:
  "HRouter e h rq ps = (fst (h rq ps) @ fst (fireAfterMiddleware e (snd (h rq ps)) rq),
               snd (fireAfterMiddleware e (snd (h rq ps)) rq))"
  by (simp add: HRouter_def split: prod.splits)

lemma replay_append: "replay e (a @ b) s = replay e b (replay e a s)"
  by (simp add: replay_def)

lemma replay_Nil: "replay e [] s = s"
  by (simp add: replay_def)

lemma replay_Cons: "replay e (x # t) s = replay e t (sink_step e x s)"
  by (simp add: replay_def)

lemma replay_loop:
  "replay e (map (\<lambda>(key, value). Header_Set key value) es) s
     = s\<lparr>sink_Header := fold (\<lambda>(k, v) m. m(CanonicalMIMEHeaderKey e k \<mapsto> v)) es (sink_Header s)\<rparr>"
  by (induction es arbitrary: s) (auto simp: replay_Nil replay_Cons)

lemma replay_call_Copy:
  "sink_status s \<noteq> None \<Longrightarrow>
   replay e (fst (call_Copy e ResponseWriter c)) s = s\<lparr>sink_body := sink_body s @ spec_body e c\<rparr>"
  by (cases c) (auto simp: replay_Nil replay_Cons send_status_def split: prod.splits)

lemma send_status_sent: "sink_status (send_status c s) \<noteq> None"
  by (simp add: send_status_def split: option.splits)

lemma replay_hooks:
  "replay e ((case cerr of None \<Rightarrow> [] | Some x \<Rightarrow> [CopyErrorHandler x]) @ [DefaultAfterMiddleware rq res]) s = s"
  by (simp add: replay_Nil replay_Cons replay_append split: option.splits)

lemma replay_write_Response:
  "replay e (fst (write_Response e (Some R) rq)) s = spec_resolve e R s"
proof (cases "r_Copy R")
  case None
  then show ?thesis
    by (simp add: write_Response_Some replay_append replay_loop replay_Cons replay_Nil
          spec_resolve_def)
next
  case (Some c)
  let ?s2 = "send_status (r_Code R)
     (s\<lparr>sink_Header := fold (\<lambda>(k, v) m. m(CanonicalMIMEHeaderKey e k \<mapsto> v))
                        (range_map (r_headers R)) (sink_Header s)\<rparr>)"
  have "replay e (fst (write_Response e (Some R) rq)) s
      = replay e ((case snd (call_Copy e ResponseWriter c) of None \<Rightarrow> [] | Some x \<Rightarrow> [CopyErrorHandler x])
                  @ [DefaultAfterMiddleware rq R])
          (replay e (fst (call_Copy e ResponseWriter c)) ?s2)"
    by (simp add: write_Response_Some Some replay_append replay_loop replay_Cons replay_Nil
          del: call_Copy.simps)
  also have "\<dots> = replay e (fst (call_Copy e ResponseWriter c)) ?s2"
    by (rule replay_hooks)
  also have "\<dots> = ?s2\<lparr>sink_body := sink_body ?s2 @ spec_body e c\<rparr>"
    by (rule replay_call_Copy) (rule send_status_sent)
  finally have f: "replay e (fst (write_Response e (Some R) rq)) s
      = ?s2\<lparr>sink_body := sink_body ?s2 @ spec_body e c\<rparr>" .
  show ?thesis
    by (simp only: f spec_resolve_def Let_def Some option.case)
qed




section \<open>The resolver's writes\<close>

text \<open>
  C1. The claim: on every request that goes through the Result path the resolver calls
  the after-hook \<^verbatim>\<open>DefaultAfterMiddleware\<close> exactly once, also for a Result without a body
  action. The code returns right after \<^verbatim>\<open>w.WriteHeader\<close> when \<^verbatim>\<open>res.Copy\<close> is nil: for
  \<^verbatim>\<open>Code(404)\<close> and for \<^verbatim>\<open>NoContent()\<close> the status line is the only event and the hook is not
  called.
\<close>

theorem no_body_skips_after_hook:
  "fireAfterMiddleware e (Response_error (Some (Code 404))) rq = ([WriteHeader 404], None)
   \<and> after_hooks (fst (fireAfterMiddleware e (Response_error (Some (Code 404))) rq)) = []
   \<and> after_hooks (fst (H e (\<lambda>_. ([], Response_error (Some NoContent))) rq)) = []"
  by (simp add: fireAfterMiddleware_def write_Response_Some Code_def NoContent_def range_map_def
        H_fireAfterMiddleware)

text \<open>
  With a body action the hook is called once, as the last event, whether or not the copy
  failed.
\<close>

lemma after_hook_with_body:
  assumes "r_Copy res = Some c"
  shows "after_hooks (fst (fireAfterMiddleware e (Response_error (Some res)) rq)) = [(rq, res)]"
    and "last (fst (fireAfterMiddleware e (Response_error (Some res)) rq)) = DefaultAfterMiddleware rq res"
  using assms
  by (simp_all add: fireAfterMiddleware_def write_Response_Some obs_append after_hooks_loop
        call_Copy_obs split: option.splits)

text \<open>
  C2. In one call of the resolver, through \<^verbatim>\<open>H\<close> or through \<^verbatim>\<open>HRouter\<close>, the events that
  follow the handler's own contain at most one status line, at most one call of the body
  action and at most one body write.
\<close>

theorem resolver_writes_at_most_once:
  "(\<exists>t p. H e h rq = (fst (h rq) @ t, p)
      \<and> t = fst (fireAfterMiddleware e (snd (h rq)) rq)
      \<and> length (status_lines t) \<le> 1
      \<and> length (copy_calls t) \<le> 1
      \<and> length (body_writes t) \<le> 1)
   \<and> (\<exists>t p. HRouter e h' rq ps = (fst (h' rq ps) @ t, p)
      \<and> t = fst (fireAfterMiddleware e (snd (h' rq ps)) rq)
      \<and> length (status_lines t) \<le> 1
      \<and> length (copy_calls t) \<le> 1
      \<and> length (body_writes t) \<le> 1)"
proof -
  have "length (status_lines (fst (fireAfterMiddleware e err rq))) \<le> 1
      \<and> length (copy_calls (fst (fireAfterMiddleware e err rq))) \<le> 1
      \<and> length (body_writes (fst (fireAfterMiddleware e err rq))) \<le> 1" for err
    using write_Response_counts [of e _ rq]
    by (cases err) (simp_all add: fireAfterMiddleware_def)
  then show ?thesis
    by (simp add: H_fireAfterMiddleware HRouter_fireAfterMiddleware)
qed




text \<open>
  C4. Let \<open>x\<close> be an error that is not a Result and \<open>R\<close> the Result that the configured
  classifier \<^verbatim>\<open>DefaultErrorHandler\<close> returns for it. What the resolver writes for \<open>x\<close>, status,
  headers and body, is what the specification's account of resolving \<open>R\<close> writes, on the
  sink as the handler left it and in particular on a new sink; the trace is the one of
  the resolver on \<open>R\<close> itself.
\<close>

theorem classifier_refinement:
  assumes c: "DefaultErrorHandler e x = Some R"
      and h: "h rq = (evs, Other_error x)"
  shows "response_of e (fst (H e h rq)) = spec_resolve e R (response_of e evs)
       \<and> snd (H e h rq) = None
       \<and> fireAfterMiddleware e (Other_error x) rq
           = fireAfterMiddleware e (Response_error (Some R)) rq
       \<and> response_of e (fst (fireAfterMiddleware e (Other_error x) rq))
           = spec_resolve e R new_sink"
proof -
  have f: "fireAfterMiddleware e (Other_error x) rq = write_Response e (Some R) rq"
    by (simp add: fireAfterMiddleware_def c)
  have "response_of e (fst (H e h rq)) = spec_resolve e R (response_of e evs)"
    by (simp add: H_fireAfterMiddleware h f response_of_def replay_append replay_write_Response)
  moreover have "snd (H e h rq) = None"
    by (simp add: H_fireAfterMiddleware h f write_Response_Some)
  moreover have "fireAfterMiddleware e (Other_error x) rq
           = fireAfterMiddleware e (Response_error (Some R)) rq"
    by (simp add: fireAfterMiddleware_def c)
  moreover have "response_of e (fst (fireAfterMiddleware e (Other_error x) rq))
           = spec_resolve e R new_sink"
    by (simp add: f response_of_def replay_write_Response)
  ultimately show ?thesis by blast
qed

theorem classifier_refinement_witness:
  "DefaultErrorHandler test_env (GoError ''boom'') = Some (Text (Code 400) ''boom'')
   \<and> test_handler [] (Other_error (GoError ''boom'')) (Request ''/'')
       = ([], Other_error (GoError ''boom''))
   \<and> response_of test_env (fst (H test_env (test_handler [] (Other_error (GoError ''boom'')))
        (Request ''/'')))
       = \<lparr>sink_Header = Map.empty, sink_status = Some 400, sink_sent = Map.empty,
          sink_body = ''boom''\<rparr>"
proof -
  have c: "DefaultErrorHandler test_env (GoError ''boom'') = Some (Text (Code 400) ''boom'')"
    by (simp add: test_env_def DefaultErrorHandler_init_def StatusBadRequest_def)
  have h: "test_handler [] (Other_error (GoError ''boom'')) (Request ''/'')
       = ([], Other_error (GoError ''boom''))"
    by (simp add: test_handler_def)
  have s: "spec_resolve test_env (Text (Code 400) ''boom'') (response_of test_env [])
       = \<lparr>sink_Header = Map.empty, sink_status = Some 400, sink_sent = Map.empty,
          sink_body = ''boom''\<rparr>"
    by (simp add: spec_resolve_def Text_def Code_def range_map_def response_of_def replay_def
          new_sink_def send_status_def test_env_def)
  from classifier_refinement [of test_env "GoError ''boom''" "Text (Code 400) ''boom''"
         "test_handler [] (Other_error (GoError ''boom''))" "Request ''/''" "[]", OF c h]
  have "response_of test_env (fst (H test_env (test_handler [] (Other_error (GoError ''boom'')))
          (Request ''/'')))
        = spec_resolve test_env (Text (Code 400) ''boom'') (response_of test_env [])"
    by blast
  with s c h show ?thesis by simp
qed

text \<open>
  The classifier the package starts with returns status 400 with the message of the
  error as text. A classifier that returns a nil pointer makes the resolver panic before
  it writes anything.
\<close>

lemma default_classifier:
  "DefaultErrorHandler_init x = Some (Text (Code 400) (error_msg x))
   \<and> r_Code (Text (Code 400) (error_msg x)) = 400
   \<and> r_Copy (Text (Code 400) (error_msg x)) = Some (Text_Copy (error_msg x))"
  by (simp add: DefaultErrorHandler_init_def StatusBadRequest_def Text_def Code_def)

lemma nil_classifier_panics:
  "DefaultErrorHandler e x = None \<Longrightarrow>
   fireAfterMiddleware e (Other_error x) rq = ([], Some NilPointerDereference)"
  by (simp add: fireAfterMiddleware_def write_Response_None)

text \<open>
  C8. When the handler returns nil the resolver does nothing: no header is set, no status
  line and no body is written, no hook is called. The trace is the handler's own.
\<close>

theorem nil_error_writes_nothing:
  "fireAfterMiddleware e Nil_error rq = ([], None)
   \<and> H e (\<lambda>_. (evs, Nil_error)) rq = (evs, None)
   \<and> HRouter e (\<lambda>_ _. (evs, Nil_error)) rq ps = (evs, None)"
  by (simp add: fireAfterMiddleware_def H_def HRouter_def)

section \<open>The builder\<close>

text \<open>
  C5. The claim: the key \<^verbatim>\<open>"extra"\<close> is added only when a non-empty extra payload is
  supplied, and is absent (not null) otherwise. The code tests \<^verbatim>\<open>value != nil\<close>, so the key
  is also there for the empty string, for the empty object, and for a nil of some type,
  which the encoder writes as \<^verbatim>\<open>null\<close>.
\<close>

theorem ErrorJSONCode_JSON_counterexample:
  "empty_payload (AnyString [])
   \<and> extra_of (ErrorJSONCode_JSON (NewCode ''BAD'' 400) [AnyString []]) = Some (AnyString [])
   \<and> empty_payload (AnyMap [])
   \<and> extra_of (ErrorJSONCode_JSON (NewCode ''BAD'' 400) [AnyMap []]) = Some (AnyMap [])
   \<and> empty_payload AnyTypedNil
   \<and> extra_of (ErrorJSONCode_JSON (NewCode ''BAD'' 400) [AnyTypedNil]) = Some AnyTypedNil"
  by (simp add: ErrorJSONCode_JSON_def NewCode_def JSON_def Code_def extra_of_def)

text \<open>
  C5, what holds instead. \<^verbatim>\<open>NewCode(c, s).JSON(extra...)\<close> is a Response with status \<open>s\<close>, the header
  \<^verbatim>\<open>Content-Type: application/json\<close> and the JSON body \<^verbatim>\<open>{"code": c}\<close>; the key \<^verbatim>\<open>"extra"\<close> is
  there exactly when a first extra argument is given and is not the nil interface value,
  and holds that argument, whatever it is. Otherwise the key is absent.
\<close>

theorem ErrorJSONCode_JSON_result:
  "ErrorJSONCode_JSON (NewCode c s) extra =
     Inr \<lparr>r_Code = s,
          r_headers = Some [(''Content-Type'', ''application/json'')],
          r_Copy = Some (JSON_Copy (AnyMap
            (case extra of
               [] \<Rightarrow> [(''code'', AnyString c)]
             | x # _ \<Rightarrow>
                 if x = AnyNil then [(''code'', AnyString c)]
                 else [(''code'', AnyString c), (''extra'', x)])))\<rparr>
   \<and> extra_of (ErrorJSONCode_JSON (NewCode c s) extra)
       = (case extra of [] \<Rightarrow> None | x # _ \<Rightarrow> if x = AnyNil then None else Some x)
   \<and> ErrorJSONCode_JSON (NewCode ''NOT_FOUND'' 404) [] =
     Inr \<lparr>r_Code = 404,
          r_headers = Some [(''Content-Type'', ''application/json'')],
          r_Copy = Some (JSON_Copy (AnyMap [(''code'', AnyString ''NOT_FOUND'')]))\<rparr>
   \<and> ErrorJSONCode_JSON (NewCode ''BAD'' 400) [AnyString ''details''] =
     Inr \<lparr>r_Code = 400,
          r_headers = Some [(''Content-Type'', ''application/json'')],
          r_Copy = Some (JSON_Copy (AnyMap [(''code'', AnyString ''BAD''),
                                             (''extra'', AnyString ''details'')]))\<rparr>"
  by (cases extra)
     (simp_all add: ErrorJSONCode_JSON_def NewCode_def JSON_def Code_def extra_of_def)

text \<open>
  C6. \<^verbatim>\<open>Headers(m)\<close> merges the entries of \<open>m\<close> into the headers of the Response: a key of
  \<open>m\<close> gets the value \<open>m\<close> gives it, every other key keeps its value, status and body action
  are untouched. \<^verbatim>\<open>Headers({"A":"1"})\<close> then \<^verbatim>\<open>Headers({"A":"2","B":"3"})\<close> on a new Response
  gives the headers \<^verbatim>\<open>{"A":"2","B":"3"}\<close>.
\<close>

theorem Headers_merge:
  assumes "map_ok m"
  shows "map_of (range_map (r_headers (Headers r m)))
           = map_of (range_map (r_headers r)) ++ map_of (range_map m)
       \<and> r_Code (Headers r m) = r_Code r
       \<and> r_Copy (Headers r m) = r_Copy r
       \<and> r_headers (Headers (Headers (Code c) (Some [(''A'', ''1'')]))
                            (Some [(''A'', ''2''), (''B'', ''3'')]))
           = Some [(''A'', ''2''), (''B'', ''3'')]"
proof -
  from assms have d: "distinct (map fst (range_map m))" by (simp add: map_ok_def)
  have "map_of (range_map (r_headers (Headers r m)))
           = map_of (range_map (r_headers r)) ++ map_of (range_map m)"
    by (cases "r_headers r")
       (simp_all add: Headers_def range_map_def [of "Some _"] range_map_def [of None]
          fold_update_map_of map_of_rev_distinct [OF d])
  moreover have "r_Code (Headers r m) = r_Code r"
    by (simp add: Headers_def split: option.splits)
  moreover have "r_Copy (Headers r m) = r_Copy r"
    by (simp add: Headers_def split: option.splits)
  moreover have "r_headers (Headers (Headers (Code c) (Some [(''A'', ''1'')]))
                            (Some [(''A'', ''2''), (''B'', ''3'')]))
           = Some [(''A'', ''2''), (''B'', ''3'')]"
    by (simp add: Headers_def Code_def range_map_def)
  ultimately show ?thesis by blast
qed

theorem Headers_merge_witness:
  "map_ok (Some [(''A'', ''2''), (''B'', ''3'')])
   \<and> map_of (range_map (r_headers (Headers (Headers (Code 200) (Some [(''A'', ''1''), (''C'', ''0'')]))
                                          (Some [(''A'', ''2''), (''B'', ''3'')])))) ''A'' = Some ''2''
   \<and> map_of (range_map (r_headers (Headers (Headers (Code 200) (Some [(''A'', ''1''), (''C'', ''0'')]))
                                          (Some [(''A'', ''2''), (''B'', ''3'')])))) ''C'' = Some ''0''"
proof -
  let ?r = "Headers (Code 200) (Some [(''A'', ''1''), (''C'', ''0'')])"
  let ?m = "Some [(''A'', ''2''), (''B'', ''3'')]"
  have ok: "map_ok ?m"
    by (simp add: map_ok_def range_map_def)
  have eq: "map_of (range_map (r_headers (Headers ?r ?m)))
              = map_of (range_map (r_headers ?r)) ++ map_of (range_map ?m)"
    using Headers_merge [OF ok, of ?r] by (rule conjunct1)
  have r: "range_map (r_headers ?r) = [(''A'', ''1''), (''C'', ''0'')]"
    by (simp add: Headers_def Code_def range_map_def)
  have m: "range_map ?m = [(''A'', ''2''), (''B'', ''3'')]"
    by (simp add: range_map_def)
  show ?thesis
    using ok by (simp add: eq r m map_add_def)
qed

text \<open>
  C7. The body action that \<^verbatim>\<open>ReadCloser\<close> installs closes its reader once, after
  \<^verbatim>\<open>io.Copy\<close> has returned and whatever error \<^verbatim>\<open>io.Copy\<close> returned (none or some), and hands
  that error on; so does the resolver when it runs that body action.
\<close>

theorem ReadCloser_always_closes:
  "r_Copy (ReadCloser r rd) = Some (ReadCloser_Copy rd)
   \<and> call_Copy e w (ReadCloser_Copy rd)
       = ([Copy_Call w (ReadCloser_Copy rd), Write w (fst (io_Copy e w rd)), Close rd],
          snd (io_Copy e w rd))
   \<and> closes (fst (call_Copy e w (ReadCloser_Copy rd))) = [rd]
   \<and> closes (fst (fireAfterMiddleware e (Response_error (Some (ReadCloser r rd))) rq)) = [rd]"
proof -
  have c: "call_Copy e w (ReadCloser_Copy rd)
       = ([Copy_Call w (ReadCloser_Copy rd), Write w (fst (io_Copy e w rd)), Close rd],
          snd (io_Copy e w rd))" for w
    by (simp split: prod.splits)
  have "closes (fst (fireAfterMiddleware e (Response_error (Some (ReadCloser r rd))) rq)) = [rd]"
    by (simp add: fireAfterMiddleware_def write_Response_Some ReadCloser_def c closes_append
          closes_loop del: call_Copy.simps split: option.splits)
  moreover have "r_Copy (ReadCloser r rd) = Some (ReadCloser_Copy rd)"
    by (simp add: ReadCloser_def)
  moreover have "closes (fst (call_Copy e w (ReadCloser_Copy rd))) = [rd]"
    by (simp add: c del: call_Copy.simps)
  ultimately show ?thesis
    using c [of w] by blast
qed

text \<open>
The body action of \<^verbatim>\<open>Reader\<close> does not close its reader.
\<close>

lemma Reader_never_closes: "closes (fst (call_Copy e w (Reader_Copy rd))) = []"
  by (simp split: prod.splits)

text \<open>
  C9. \<^verbatim>\<open>Response.Error\<close> on a Response without a body action calls a nil function value
  and panics; with a body action it returns a string. \<^verbatim>\<open>Code(404).Error()\<close> panics.
\<close>

theorem Error_nil_Copy_panics:
  "(r_Copy r = None \<longrightarrow> Error e r = Inl NilPointerDereference)
   \<and> (r_Copy r \<noteq> None \<longrightarrow> (\<exists>s evs. Error e r = Inr (s, evs)))
   \<and> Error e (Code 404) = Inl NilPointerDereference"
  by (auto simp: Error_def Code_def split: option.splits prod.splits)

theorem Error_nil_Copy_panics_witness:
  "r_Copy (Code 404) = None \<and> Error test_env (Code 404) = Inl NilPointerDereference
   \<and> r_Copy (Text (Code 404) ''gone'') \<noteq> None
   \<and> (\<exists>s evs. Error test_env (Text (Code 404) ''gone'') = Inr (s, evs))"
  using Error_nil_Copy_panics [of "Code 404" test_env]
    Error_nil_Copy_panics [of "Text (Code 404) ''gone''" test_env]
  by (simp add: Code_def Text_def)

text \<open>
  C10. Each of \<^verbatim>\<open>Text\<close>, \<^verbatim>\<open>Reader\<close>, \<^verbatim>\<open>ReadCloser\<close> and \<^verbatim>\<open>JSON\<close> replaces the body action by
  its own, whatever it was before. The first three leave the headers as they are; \<^verbatim>\<open>JSON\<close>
  sets \<^verbatim>\<open>Content-Type\<close> and keeps every other key with its value. \<^verbatim>\<open>Code(c).JSON(v).Text(s)\<close>
  has the body action of \<^verbatim>\<open>Text\<close> and still the header \<^verbatim>\<open>Content-Type: application/json\<close>.
\<close>

theorem body_setters_keep_headers:
  "r_Copy (Text r s) = Some (Text_Copy s) \<and> r_headers (Text r s) = r_headers r
   \<and> r_Copy (Reader r rd) = Some (Reader_Copy rd) \<and> r_headers (Reader r rd) = r_headers r
   \<and> r_Copy (ReadCloser r rd) = Some (ReadCloser_Copy rd)
   \<and> r_headers (ReadCloser r rd) = r_headers r
   \<and> (\<forall>es. r_headers r = Some es \<longrightarrow>
        (\<exists>r'. JSON r v = Inr r' \<and> r_Copy r' = Some (JSON_Copy v)
           \<and> r_headers r' = Some (AList.update ''Content-Type'' ''application/json'' es)
           \<and> fst ` set es \<subseteq> fst ` set (range_map (r_headers r'))
           \<and> (\<forall>k. k \<noteq> ''Content-Type'' \<longrightarrow>
                 map_of (range_map (r_headers r')) k = map_of es k)))
   \<and> map_sum id (\<lambda>r'. Text r' s) (JSON (Code c) v)
       = Inr \<lparr>r_Code = c,
              r_headers = Some [(''Content-Type'', ''application/json'')],
              r_Copy = Some (Text_Copy s)\<rparr>"
  by (auto simp: Text_def Reader_def ReadCloser_def JSON_def Code_def range_map_def
        dom_update update_conv')

theorem body_setters_keep_headers_witness:
  "r_headers (Headers (Code 200) (Some [(''X'', ''1'')])) = Some [(''X'', ''1'')]
   \<and> (\<exists>r'. JSON (Headers (Code 200) (Some [(''X'', ''1'')])) (AnyString ''v'') = Inr r'
         \<and> r_Copy r' = Some (JSON_Copy (AnyString ''v''))
         \<and> map_of (range_map (r_headers r')) ''X'' = Some ''1'')"
proof -
  have h: "r_headers (Headers (Code 200) (Some [(''X'', ''1'')])) = Some [(''X'', ''1'')]"
    by (simp add: Headers_def Code_def range_map_def)
  from body_setters_keep_headers [of "Headers (Code 200) (Some [(''X'', ''1'')])" _ _ "AnyString ''v''"] h
  obtain r' where "JSON (Headers (Code 200) (Some [(''X'', ''1'')])) (AnyString ''v'') = Inr r'"
    and "r_Copy r' = Some (JSON_Copy (AnyString ''v''))"
    and "\<forall>k. k \<noteq> ''Content-Type'' \<longrightarrow> map_of (range_map (r_headers r')) k = map_of [(''X'', ''1'')] k"
    by blast
  then show ?thesis using h by auto
qed

end
